theory Spec2Isabelle
  imports Main
begin

section \<open>The replacement transformer of airshipctl\<close>

text \<open>
  A shallow embedding of \<^verbatim>\<open>pkg/document/plugin/replacement/transformer.go\<close>:
  the path parser inside \<^verbatim>\<open>substitute\<close>, the recursive tree mutator
  (\<^verbatim>\<open>updateField\<close>, \<^verbatim>\<open>updateMapField\<close>, \<^verbatim>\<open>updateSliceField\<close>), the
  substring substitution and the checks of \<^verbatim>\<open>New\<close>, \<^verbatim>\<open>getReplacement\<close> and
  \<^verbatim>\<open>substitute\<close>.

  Go mutates maps and slices in place and returns only an error. The model passes the
  container in and returns it, updated, together with the error; a mutation that the code
  performs before it returns an error is therefore visible in the result. Values are
  trees: two places of one document never share a map or a slice, and one call of
  \<^verbatim>\<open>updateField\<close> stores its replacement at one place. The loops of \<^verbatim>\<open>substitute\<close>,
  which store one replacement at several places, are modelled for the replacements that
  hold no map and no slice.
\<close>

subsection \<open>Values, errors and outcomes\<close>

text \<open>
  The dynamic values behind \<^verbatim>\<open>interface{}\<close>: \<^verbatim>\<open>nil\<close>, booleans, the integer
  types, floating point numbers (kept opaque), strings, \<^verbatim>\<open>map[string]interface{}\<close>,
  \<^verbatim>\<open>[]interface{}\<close> and \<^verbatim>\<open>[]string\<close> (what \<^verbatim>\<open>processArray\<close> returns).
\<close>

typedecl float64

datatype val =
    VNil
  | VBool bool
  | VInt int
  | VFloat float64
  | VStr string
  | VMap "string \<Rightarrow> val option"
  | VSeq "val list"
  | VStrs "string list"

record gvk =
  Group :: string
  Version :: string
  Kind :: string

text \<open>\<^verbatim>\<open>types.Target\<close> of kustomize: the reference a source names.\<close>

record target =
  Gvk :: gvk
  Name :: string
  Namespace :: string

text \<open>\<^verbatim>\<open>types.Selector\<close> of kustomize: what \<^verbatim>\<open>ResMap.Select\<close> takes.\<close>

record selector =
  sGvk :: gvk
  sName :: string
  sNamespace :: string
  AnnotationSelector :: string
  LabelSelector :: string

text \<open>
  The errors the package returns. \<open>ErrTypeMismatch\<close> keeps the field \<^verbatim>\<open>Actual\<close>
  (the text of \<^verbatim>\<open>Expectation\<close> is left out), \<open>ErrIndexOutOfBound\<close> keeps
  \<^verbatim>\<open>Index\<close> and \<^verbatim>\<open>Length\<close>, \<open>NumError\<close> is \<^verbatim>\<open>*strconv.NumError\<close> of
  \<^verbatim>\<open>strconv.Atoi\<close> with its input, and \<open>ErrExternal\<close> is whatever
  \<^verbatim>\<open>FromUnstructured\<close>, \<^verbatim>\<open>ResMap.Select\<close> or \<^verbatim>\<open>GetFieldValue\<close> report.
\<close>

datatype error =
    ErrTypeMismatch val
  | ErrIndexOutOfBound int nat
  | ErrPatternSubstring string
  | NumError string
  | ErrBadConfiguration string
  | ErrSourceNotFound target
  | ErrTargetNotFound selector
  | ErrMultipleResources target
  | ErrExternal string

text \<open>What stops a Go program instead of returning: the run-time panics.\<close>

datatype panic =
    IndexOutOfRange
  | RegexpMustCompile string
  | NilDereference

text \<open>
  The outcome of a call that mutates a container of type \<open>'a\<close>: it returns with the
  container as it now is and Go's \<^verbatim>\<open>error\<close> (\<open>None\<close> is \<^verbatim>\<open>nil\<close>), or it panics.
\<close>

datatype 'a outcome =
    Returns 'a "error option"
  | Panics panic

subsection \<open>The two regular expressions\<close>

text \<open>
  \<^verbatim>\<open>pattern = (\S+)\[(\S+)=(\S+)\]\<close> and
  \<^verbatim>\<open>substringPatternRegex = (.+)%(\S+)%$\<close> are sequences of literal bytes, greedy
  capturing groups \<^verbatim>\<open>(C+)\<close> over a character class, and the end of the text. Go's
  \<^verbatim>\<open>regexp\<close> returns the leftmost match and, among those, the one a backtracking
  engine finds first; \<open>matchHere\<close> is that engine for such sequences and \<open>FindStringSubmatch\<close>
  tries the start positions from the left. Both classes and all literals are ASCII, so
  matching bytes agrees with matching UTF-8 runes.
\<close>

datatype cls = NotSpace | NotNewline

fun in_cls :: "cls \<Rightarrow> char \<Rightarrow> bool" where
  "in_cls NotSpace c =
     (c \<noteq> CHR 0x09 \<and> c \<noteq> CHR 0x0A \<and> c \<noteq> CHR 0x0C \<and> c \<noteq> CHR 0x0D \<and> c \<noteq> CHR 0x20)"
| "in_cls NotNewline c = (c \<noteq> CHR 0x0A)"

datatype item = Lit char | Plus cls | EndOfText

text \<open>\<open>firstSome f k\<close> tries \<open>f k\<close>, \<open>f (k - 1)\<close>, ..., \<open>f 1\<close>: the longest run first.\<close>

fun firstSome :: "(nat \<Rightarrow> 'a option) \<Rightarrow> nat \<Rightarrow> 'a option" where
  "firstSome f 0 = None"
| "firstSome f (Suc k) = (case f (Suc k) of Some r \<Rightarrow> Some r | None \<Rightarrow> firstSome f k)"

text \<open>A match anchored at the start of \<open>s\<close>: the matched text and the groups.\<close>

fun matchHere :: "item list \<Rightarrow> string \<Rightarrow> (string \<times> string list) option" where
  "matchHere [] s = Some ([], [])"
| "matchHere (Lit c # its) s =
     (case s of
        [] \<Rightarrow> None
      | x # xs \<Rightarrow>
          if x = c then map_option (\<lambda>(w, gs). (x # w, gs)) (matchHere its xs) else None)"
| "matchHere (EndOfText # its) s = (if s = [] then matchHere its s else None)"
| "matchHere (Plus C # its) s =
     firstSome
       (\<lambda>k. map_option (\<lambda>(w, gs). (take k s @ w, take k s # gs)) (matchHere its (drop k s)))
       (length (takeWhile (in_cls C) s))"

fun findFrom :: "item list \<Rightarrow> string \<Rightarrow> (string \<times> string list) option" where
  "findFrom its [] = matchHere its []"
| "findFrom its (x # xs) =
     (case matchHere its (x # xs) of Some r \<Rightarrow> Some r | None \<Rightarrow> findFrom its xs)"

text \<open>\<^verbatim>\<open>FindStringSubmatch\<close>: the whole match and the groups, or \<^verbatim>\<open>nil\<close> (no element).\<close>

definition FindStringSubmatch :: "item list \<Rightarrow> string \<Rightarrow> string list" where
  "FindStringSubmatch its s = (case findFrom its s of None \<Rightarrow> [] | Some (w, gs) \<Rightarrow> w # gs)"

definition pattern :: "item list" where
  "pattern = [Plus NotSpace, Lit (CHR ''[''), Plus NotSpace, Lit (CHR ''=''), Plus NotSpace,
              Lit (CHR '']'')]"

definition substringPatternRegex :: "item list" where
  "substringPatternRegex = [Plus NotNewline, Lit (CHR ''%''), Plus NotSpace, Lit (CHR ''%''),
                            EndOfText]"

definition dotReplacer :: string where
  "dotReplacer = ''$$$$''"

definition getFirstPathSegment :: "string \<Rightarrow> string \<times> string \<times> string \<times> bool" where
  "getFirstPathSegment path =
     (let groups = FindStringSubmatch pattern path in
      if length groups \<noteq> 4 then (path, '''', '''', False)
      else (groups ! 1, groups ! 2, groups ! 3, groups ! 2 \<noteq> ''''))"

definition extractSubstringPattern :: "string \<Rightarrow> string \<times> string" where
  "extractSubstringPattern path =
     (let groups = FindStringSubmatch substringPatternRegex path in
      if length groups \<noteq> 3 then (path, '''') else (groups ! 1, groups ! 2))"

subsection \<open>The functions of \<^verbatim>\<open>strings\<close>, \<^verbatim>\<open>strconv\<close> and \<^verbatim>\<open>fmt\<close> the code calls\<close>

text \<open>\<^verbatim>\<open>strings.Split\<close> with a separator of one byte (the code splits on \<^verbatim>\<open>[ ] .\<close>).\<close>

fun Split :: "string \<Rightarrow> char \<Rightarrow> string list" where
  "Split [] sep = [[]]"
| "Split (x # xs) sep =
     (if x = sep then [] # Split xs sep
      else (case Split xs sep of [] \<Rightarrow> [[x]] | h # t \<Rightarrow> (x # h) # t))"

fun Join :: "string list \<Rightarrow> string \<Rightarrow> string" where
  "Join [] sep = []"
| "Join [x] sep = x"
| "Join (x # y # ys) sep = x @ sep @ Join (y # ys) sep"

definition Contains :: "string \<Rightarrow> char \<Rightarrow> bool" where
  "Contains s c = (c \<in> set s)"

text \<open>
  \<^verbatim>\<open>strings.ReplaceAll\<close> for a non-empty \<open>old\<close>: the non-overlapping occurrences from
  the left. The code never passes an empty \<open>old\<close>.
\<close>

fun ReplaceAll :: "string \<Rightarrow> string \<Rightarrow> string \<Rightarrow> string" where
  "ReplaceAll [] old new = []"
| "ReplaceAll (x # xs) old new =
     (if old \<noteq> [] \<and> take (length old) (x # xs) = old
      then new @ ReplaceAll (drop (length old - 1) xs) old new
      else x # ReplaceAll xs old new)"

text \<open>
  \<^verbatim>\<open>strconv.Atoi\<close> on a 64-bit platform: an optional sign, then one or more decimal
  digits, and a value that fits \<^verbatim>\<open>int64\<close>; anything else is a \<^verbatim>\<open>*NumError\<close>.
\<close>

definition digitVal :: "char \<Rightarrow> int option" where
  "digitVal c = (let n = (of_char c :: int) in if 48 \<le> n \<and> n \<le> 57 then Some (n - 48) else None)"

fun parseDigits :: "int \<Rightarrow> string \<Rightarrow> int option" where
  "parseDigits acc [] = Some acc"
| "parseDigits acc (c # cs) =
     (case digitVal c of None \<Rightarrow> None | Some d \<Rightarrow> parseDigits (acc * 10 + d) cs)"

definition Atoi :: "string \<Rightarrow> error + int" where
  "Atoi s =
     (let neg = (s \<noteq> [] \<and> hd s = CHR ''-'');
          body = (if s \<noteq> [] \<and> (hd s = CHR ''-'' \<or> hd s = CHR ''+'') then tl s else s)
      in if body = [] then Inl (NumError s)
         else (case parseDigits 0 body of
                 None \<Rightarrow> Inl (NumError s)
               | Some n \<Rightarrow>
                   let i = (if neg then - n else n) in
                   if i < - (2 ^ 63) \<or> 2 ^ 63 - 1 < i then Inl (NumError s) else Inr i))"

text \<open>\<^verbatim>\<open>fmt.Sprint\<close> of an integer: its decimal digits, with \<^verbatim>\<open>-\<close> when negative.\<close>

fun natDigits :: "nat \<Rightarrow> string" where
  "natDigits n =
     (if n < 10 then [''0123456789'' ! n] else natDigits (n div 10) @ [''0123456789'' ! (n mod 10)])"

definition Sprint :: "int \<Rightarrow> string" where
  "Sprint i = (if i < 0 then CHR ''-'' # natDigits (nat (- i)) else natDigits (nat i))"

text \<open>Go's checked indexing \<^verbatim>\<open>m[i]\<close> and \<^verbatim>\<open>m[i] = v\<close> on a slice.\<close>

definition sliceGet :: "'a list \<Rightarrow> int \<Rightarrow> panic + 'a" where
  "sliceGet m i = (if 0 \<le> i \<and> i < int (length m) then Inr (m ! nat i) else Inl IndexOutOfRange)"

definition sliceSet :: "'a list \<Rightarrow> int \<Rightarrow> 'a \<Rightarrow> panic + 'a list" where
  "sliceSet m i v = (if 0 \<le> i \<and> i < int (length m) then Inr (m[nat i := v]) else Inl IndexOutOfRange)"

subsection \<open>Substring substitution\<close>

text \<open>
  The package \<^verbatim>\<open>regexp\<close> is a parameter \<open>rx\<close> of the model: \<open>rx p\<close> is \<open>None\<close> when
  \<^verbatim>\<open>regexp.MustCompile(p)\<close> panics, and \<open>Some f\<close> when it compiles, with \<open>f s r\<close> the
  result of \<^verbatim>\<open>ReplaceAllString(s, r)\<close>.
\<close>

type_synonym regexp = "string \<Rightarrow> (string \<Rightarrow> string \<Rightarrow> string) option"

definition processString :: "regexp \<Rightarrow> string \<Rightarrow> string \<Rightarrow> string \<Rightarrow> panic + string" where
  "processString rx field substringPattern replacement =
     (case rx substringPattern of
        None \<Rightarrow> Inl (RegexpMustCompile substringPattern)
      | Some f \<Rightarrow> Inr (f field replacement))"

fun processArray :: "regexp \<Rightarrow> string list \<Rightarrow> string \<Rightarrow> string \<Rightarrow> panic + string list" where
  "processArray rx [] pat replacement = Inr []"
| "processArray rx (field # tgt) pat replacement =
     (case processString rx field pat replacement of
        Inl p \<Rightarrow> Inl p
      | Inr s \<Rightarrow>
          (case processArray rx tgt pat replacement of
             Inl p \<Rightarrow> Inl p
           | Inr result \<Rightarrow> Inr (s # result)))"

text \<open>The loop of \<^verbatim>\<open>convertToStrings\<close>: the elements that are strings, in order.\<close>

fun stringsOf :: "val list \<Rightarrow> string list" where
  "stringsOf [] = []"
| "stringsOf (VStr str # iFaces) = str # stringsOf iFaces"
| "stringsOf (val # iFaces) = stringsOf iFaces"

definition convertToStrings :: "val list \<Rightarrow> string list \<times> bool" where
  "convertToStrings iFaces = (let result = stringsOf iFaces in (result, length result \<noteq> 0))"

definition msgReplacement :: string where
  "msgReplacement =
     ''pattern-based substitution can only be applied with string or numeric replacement values''"

definition msgTarget :: string where
  "msgTarget =
     ''pattern-based substitution can only be applied to string or array of strings target fields''"

definition liftPanic :: "('a \<Rightarrow> val) \<Rightarrow> panic + 'a \<Rightarrow> val outcome" where
  "liftPanic mk r = (case r of Inl p \<Rightarrow> Panics p | Inr x \<Rightarrow> Returns (mk x) None)"

text \<open>
  The second \<^verbatim>\<open>switch\<close> of \<^verbatim>\<open>applySubstringPattern\<close>, on the kind of the target.
  \<^verbatim>\<open>reflect.TypeOf(nil)\<close> is \<^verbatim>\<open>nil\<close>, so \<^verbatim>\<open>Kind()\<close> panics on a \<^verbatim>\<open>nil\<close> target.
\<close>

definition substituteTarget :: "regexp \<Rightarrow> val \<Rightarrow> string \<Rightarrow> string \<Rightarrow> val outcome" where
  "substituteTarget rx target replacementString substringPattern =
     (case target of
        VNil \<Rightarrow> Panics NilDereference
      | VStr s \<Rightarrow> liftPanic VStr (processString rx s substringPattern replacementString)
      | VSeq ifaceArray \<Rightarrow>
          (case convertToStrings ifaceArray of
             (strArray, ok) \<Rightarrow>
               if ok then liftPanic VStrs (processArray rx strArray substringPattern replacementString)
               else Returns VNil (Some (ErrPatternSubstring msgTarget)))
      | VStrs strArray \<Rightarrow>
          liftPanic VStrs (processArray rx strArray substringPattern replacementString)
      | _ \<Rightarrow> Returns VNil (Some (ErrPatternSubstring msgTarget)))"

definition applySubstringPattern :: "regexp \<Rightarrow> val \<Rightarrow> val \<Rightarrow> string \<Rightarrow> val outcome" where
  "applySubstringPattern rx target replacement substringPattern =
     (if substringPattern = '''' then Returns replacement None
      else (case replacement of
              VInt t \<Rightarrow> substituteTarget rx target (Sprint t) substringPattern
            | VStr t \<Rightarrow> substituteTarget rx target t substringPattern
            | _ \<Rightarrow> Returns VNil (Some (ErrPatternSubstring msgReplacement))))"

subsection \<open>The tree mutator\<close>

text \<open>
  The loop over the elements of a sequence that both \<^verbatim>\<open>updateMapField\<close> and
  \<^verbatim>\<open>updateSliceField\<close> run for an array predicate \<^verbatim>\<open>[key=value]\<close>: the index of the
  first element that is a map with \<open>key\<close> bound to the string \<open>value\<close>, an
  \<open>ErrTypeMismatch\<close> at an element before it that is not a map, or no element.
\<close>

fun findMatch :: "string \<Rightarrow> string \<Rightarrow> val list \<Rightarrow> error + nat option" where
  "findMatch key value [] = Inr None"
| "findMatch key value (item # items) =
     (case item of
        VMap typedItem \<Rightarrow>
          (case typedItem key of
             Some actualValue \<Rightarrow>
               if VStr value = actualValue then Inr (Some 0)
               else map_sum id (map_option Suc) (findMatch key value items)
           | None \<Rightarrow> map_sum id (map_option Suc) (findMatch key value items))
      | _ \<Rightarrow> Inl (ErrTypeMismatch item))"

text \<open>
  The three mutually recursive functions. The first argument after \<open>rx\<close> is fuel: every
  call of \<^verbatim>\<open>updateField\<close> spends one unit, and \<open>None\<close> is a call that has not returned
  within the fuel. A call returns in Go exactly when some fuel gives \<open>Some\<close>.
\<close>

function (sequential) updateField :: "regexp \<Rightarrow> nat \<Rightarrow> val \<Rightarrow> string list \<Rightarrow> val \<Rightarrow> val outcome option"
  and updateMapField ::
    "regexp \<Rightarrow> nat \<Rightarrow> (string \<Rightarrow> val option) \<Rightarrow> string list \<Rightarrow> val \<Rightarrow>
       (string \<Rightarrow> val option) outcome option"
  and updateSliceField ::
    "regexp \<Rightarrow> nat \<Rightarrow> val list \<Rightarrow> string list \<Rightarrow> val \<Rightarrow> val list outcome option"
where
  "updateField rx 0 m pathToField replacement = None"
| "updateField rx (Suc n) m pathToField replacement =
     (if length pathToField = 0 then Some (Returns m None)
      else (case m of
              VMap typedM \<Rightarrow>
                map_option (map_outcome VMap) (updateMapField rx n typedM pathToField replacement)
            | VSeq typedM \<Rightarrow>
                map_option (map_outcome VSeq) (updateSliceField rx n typedM pathToField replacement)
            | _ \<Rightarrow> Some (Returns m (Some (ErrTypeMismatch m)))))"
| "updateMapField rx n m [] replacement = Some (Panics IndexOutOfRange)"
| "updateMapField rx n m (seg # rest) replacement =
     (case getFirstPathSegment seg of
        (path0, key, value, isArray) \<Rightarrow>
     (case extractSubstringPattern path0 of
        (path, substringPattern) \<Rightarrow>
     (let m1 = (case m path of None \<Rightarrow> m(path \<mapsto> VMap Map.empty) | Some found \<Rightarrow> m);
          v = (case m path of None \<Rightarrow> VMap Map.empty | Some found \<Rightarrow> found)
      in if v = VNil then Some (Returns m1 (Some (ErrTypeMismatch v)))
         else if rest = [] \<and> \<not> isArray then
           (case applySubstringPattern rx v replacement substringPattern of
              Panics p \<Rightarrow> Some (Panics p)
            | Returns renderedRepl (Some err) \<Rightarrow> Some (Returns m1 (Some err))
            | Returns renderedRepl None \<Rightarrow> Some (Returns (m1(path \<mapsto> renderedRepl)) None))
         else
           (case (if rest = [] then
                    (case v of
                       VSeq typedV \<Rightarrow>
                         (case findMatch key value typedV of
                            Inl err \<Rightarrow> Some (Returns m1 (Some err))
                          | Inr (Some i) \<Rightarrow>
                              Some (Returns (m1(path \<mapsto> VSeq (typedV[i := replacement]))) None)
                          | Inr None \<Rightarrow> None)
                     | _ \<Rightarrow> Some (Returns m1 (Some (ErrTypeMismatch v))))
                  else None) of
              Some returned \<Rightarrow> Some returned
            | None \<Rightarrow>
                (case updateField rx n v (if isArray then seg # rest else rest) replacement of
                   None \<Rightarrow> None
                 | Some (Panics p) \<Rightarrow> Some (Panics p)
                 | Some (Returns v' err) \<Rightarrow> Some (Returns (m1(path \<mapsto> v')) err))))))"
| "updateSliceField rx n m [] replacement = Some (Returns m None)"
| "updateSliceField rx n m (seg # rest) replacement =
     (case getFirstPathSegment seg of
        (path0, key, value, isArray) \<Rightarrow>
     if isArray then
       (case findMatch key value m of
          Inl err \<Rightarrow> Some (Returns m (Some err))
        | Inr None \<Rightarrow> Some (Returns m None)
        | Inr (Some i) \<Rightarrow>
            (case updateField rx n (m ! i) rest replacement of
               None \<Rightarrow> None
             | Some (Panics p) \<Rightarrow> Some (Panics p)
             | Some (Returns typedItem err) \<Rightarrow> Some (Returns (m[i := typedItem]) err)))
     else
       (case Atoi seg of
          Inl err \<Rightarrow> Some (Returns m (Some err))
        | Inr index \<Rightarrow>
            if int (length m) < index \<or> index < 0
            then Some (Returns m (Some (ErrIndexOutOfBound index (length m))))
            else if rest = [] then
              (case sliceSet m index replacement of
                 Inl p \<Rightarrow> Some (Panics p)
               | Inr m' \<Rightarrow> Some (Returns m' None))
            else
              (case sliceGet m index of
                 Inl p \<Rightarrow> Some (Panics p)
               | Inr item \<Rightarrow>
                   (case updateField rx n item rest replacement of
                      None \<Rightarrow> None
                    | Some (Panics p) \<Rightarrow> Some (Panics p)
                    | Some (Returns item' err) \<Rightarrow>
                        Some (Returns (m[nat index := item']) err)))))"
  by pat_completeness auto

termination
  by (relation "measure (\<lambda>x. case x of
         Inl (rx, n, m, p, r) \<Rightarrow> 2 * n
       | Inr (Inl (rx, n, m, p, r)) \<Rightarrow> 2 * n + 1
       | Inr (Inr (rx, n, m, p, r)) \<Rightarrow> 2 * n + 1)") auto

subsection \<open>The path parser of \<^verbatim>\<open>substitute\<close>\<close>

text \<open>
  What the inner loop of \<^verbatim>\<open>substitute\<close> does to one part of the path that follows
  a \<^verbatim>\<open>[\<close>: when the part holds a \<^verbatim>\<open>]\<close>, the dots before the first \<^verbatim>\<open>]\<close>
  become \<open>dotReplacer\<close>.
\<close>

definition protectDots :: "string \<Rightarrow> string" where
  "protectDots part =
     (if Contains part (CHR '']'') then
        (let filter = Split part (CHR '']'') in
         Join (filter[0 := ReplaceAll (filter ! 0) ''.'' dotReplacer]) '']'')
      else part)"

text \<open>The \<^verbatim>\<open>pathSlice\<close> that \<^verbatim>\<open>substitute\<close> hands to \<^verbatim>\<open>updateField\<close> for the path \<open>p\<close>.\<close>

definition pathSliceOf :: "string \<Rightarrow> string list" where
  "pathSliceOf p =
     (let parts = Split p (CHR ''['');
          tmp = map protectDots parts
      in case extractSubstringPattern (Join tmp ''['') of
           (p', substringPattern) \<Rightarrow>
             (let pathSlice = Split p' (CHR ''.'');
                  pathSlice' =
                    (if length substringPattern > 0
                     then pathSlice[length pathSlice - 1 :=
                            pathSlice ! (length pathSlice - 1) @ ''%'' @ substringPattern @ ''%'']
                     else pathSlice)
              in map (\<lambda>part. ReplaceAll part dotReplacer ''.'') pathSlice'))"

subsection \<open>Rules, resources and the orchestration\<close>

text \<open>\<^verbatim>\<open>types.ReplSource\<close>, \<^verbatim>\<open>types.ReplTarget\<close> and \<^verbatim>\<open>types.Replacement\<close>; a pointer is an option.\<close>

record replSource =
  ObjRef :: "target option"
  FieldRef :: string
  Value :: string

record replTarget =
  TargetObjRef :: "selector option"
  FieldRefs :: "string list"

record replacement =
  Source :: "replSource option"
  Target :: "replTarget option"

record plugin =
  Replacements :: "replacement list"

definition msgFrom :: string where
  "msgFrom = ''`from` must be specified in one replacement''"

definition msgTo :: string where
  "msgTo = ''`to` must be specified in one replacement''"

definition msgOnlyOne :: string where
  "msgOnlyOne = ''only one of fieldref and value is allowed in one replacement''"

text \<open>The loop of \<^verbatim>\<open>New\<close> over the replacements: the first error, if any.\<close>

fun checkReplacements :: "replacement list \<Rightarrow> error option" where
  "checkReplacements [] = None"
| "checkReplacements (r # rs) =
     (case Source r of
        None \<Rightarrow> Some (ErrBadConfiguration msgFrom)
      | Some src \<Rightarrow>
          (case Target r of
             None \<Rightarrow> Some (ErrBadConfiguration msgTo)
           | Some tgt \<Rightarrow>
               if ObjRef src \<noteq> None \<and> Value src \<noteq> ''''
               then Some (ErrBadConfiguration msgOnlyOne)
               else checkReplacements rs))"

text \<open>
  \<^verbatim>\<open>New\<close>, from the result of \<^verbatim>\<open>FromUnstructured\<close>: its error, or the decoded
  configuration.
\<close>

definition New :: "error + plugin \<Rightarrow> error + plugin" where
  "New cfg =
     (case cfg of
        Inl err \<Rightarrow> Inl err
      | Inr p \<Rightarrow>
          (case checkReplacements (Replacements p) of
             Some err \<Rightarrow> Inl err
           | None \<Rightarrow> Inr p))"











subsection \<open>Predicates the properties are stated with\<close>

text \<open>A segment is an array predicate when \<^verbatim>\<open>getFirstPathSegment\<close> says \<^verbatim>\<open>isArray\<close>.\<close>

definition isArray :: "string \<Rightarrow> bool" where
  "isArray seg = snd (snd (snd (getFirstPathSegment seg)))"

fun isMap :: "val \<Rightarrow> bool" where
  "isMap (VMap m) = True"
| "isMap v = False"

text \<open>An element matches \<^verbatim>\<open>[key=value]\<close>: it is a map that binds \<open>key\<close> to the string \<open>value\<close>.\<close>

fun itemMatches :: "string \<Rightarrow> string \<Rightarrow> val \<Rightarrow> bool" where
  "itemMatches key value (VMap m) = (m key = Some (VStr value))"
| "itemMatches key value v = False"

definition isDigit :: "char \<Rightarrow> bool" where
  "isDigit c = (c \<in> set ''0123456789'')"

text \<open>A decimal integer literal: an optional sign and one or more decimal digits.\<close>

definition decimalLiteral :: "string \<Rightarrow> bool" where
  "decimalLiteral s =
     (let body = (if s \<noteq> [] \<and> (hd s = CHR ''-'' \<or> hd s = CHR ''+'') then tl s else s)
      in body \<noteq> [] \<and> list_all isDigit body)"

text \<open>
  A rule that \<^verbatim>\<open>New\<close> rejects: no source, no target, or a source with both a
  field reference and a literal value.
\<close>

definition badRule :: "replacement \<Rightarrow> bool" where
  "badRule r =
     (case Source r of
        None \<Rightarrow> True
      | Some src \<Rightarrow> Target r = None \<or> (ObjRef src \<noteq> None \<and> Value src \<noteq> ''''))"

text \<open>The selector \<^verbatim>\<open>getReplacement\<close> builds from the reference of a source.\<close>

definition selectorOf :: "target \<Rightarrow> selector" where
  "selectorOf objRef =
     \<lparr>sGvk = Gvk objRef, sName = Name objRef, sNamespace = Namespace objRef,
      AnnotationSelector = '''', LabelSelector = ''''\<rparr>"

subsection \<open>Example data\<close>

definition podRef :: target where
  "podRef = \<lparr>Gvk = \<lparr>Group = '''', Version = ''v1'', Kind = ''Pod''\<rparr>, Name = ''pod'',
             Namespace = ''default''\<rparr>"


definition toPods :: replTarget where
  "toPods = \<lparr>TargetObjRef = Some (selectorOf podRef), FieldRefs = [''a'']\<rparr>"




definition noRegexp :: regexp where
  "noRegexp p = None"


text \<open>A rule whose source has neither a field reference nor a literal value.\<close>

definition emptySourceRule :: replacement where
  "emptySourceRule =
     \<lparr>Source = Some \<lparr>ObjRef = None, FieldRef = '''', Value = ''''\<rparr>,
      Target = Some toPods\<rparr>"

definition bothSourcesRule :: replacement where
  "bothSourcesRule =
     \<lparr>Source = Some \<lparr>ObjRef = Some podRef, FieldRef = '''', Value = ''abc''\<rparr>,
      Target = Some toPods\<rparr>"

definition literalRule :: replacement where
  "literalRule =
     \<lparr>Source = Some \<lparr>ObjRef = None, FieldRef = '''', Value = ''abc''\<rparr>,
      Target = Some toPods\<rparr>"

section \<open>Properties\<close>

declare natDigits.simps [simp del]

subsection \<open>Evaluating the parser on the segments used below\<close>

lemma segment_3: "getFirstPathSegment ''3'' = (''3'', '''', '''', False)"
  by code_simp

lemma segment_2: "getFirstPathSegment ''2'' = (''2'', '''', '''', False)"
  by code_simp

lemma segment_5: "getFirstPathSegment ''5'' = (''5'', '''', '''', False)"
  by code_simp

lemma segment_a: "getFirstPathSegment ''a'' = (''a'', '''', '''', False)"
  by code_simp

lemma suffix_a: "extractSubstringPattern ''a'' = (''a'', '''')"
  by code_simp

lemma segment_metadata: "getFirstPathSegment ''metadata'' = (''metadata'', '''', '''', False)"
  by code_simp

lemma segment_labels: "getFirstPathSegment ''labels'' = (''labels'', '''', '''', False)"
  by code_simp

lemma segment_owner: "getFirstPathSegment ''owner'' = (''owner'', '''', '''', False)"
  by code_simp

lemma suffix_metadata: "extractSubstringPattern ''metadata'' = (''metadata'', '''')"
  by code_simp

lemma suffix_labels: "extractSubstringPattern ''labels'' = (''labels'', '''')"
  by code_simp

lemma suffix_owner: "extractSubstringPattern ''owner'' = (''owner'', '''')"
  by code_simp

lemma path_metadata_labels_owner:
  "pathSliceOf ''metadata.labels.owner'' = [''metadata'', ''labels'', ''owner'']"
  by code_simp

lemma Atoi_2: "Atoi ''2'' = Inr 2"
  by (simp add: Atoi_def digitVal_def)

lemma Atoi_3: "Atoi ''3'' = Inr 3"
  by (simp add: Atoi_def digitVal_def)

lemma Atoi_5: "Atoi ''5'' = Inr 5"
  by (simp add: Atoi_def digitVal_def)

subsection \<open>\<^verbatim>\<open>strconv.Atoi\<close> fails on what is not a decimal literal\<close>

lemma digit_chars: "map char_of [48 :: int, 49, 50, 51, 52, 53, 54, 55, 56, 57] = ''0123456789''"
  by code_simp

lemma digitVal_None: "\<not> isDigit c \<Longrightarrow> digitVal c = None"
proof (rule ccontr)
  assume nd: "\<not> isDigit c" and "digitVal c \<noteq> None"
  then have r: "48 \<le> (of_char c :: int)" "(of_char c :: int) \<le> 57"
    by (auto simp: digitVal_def Let_def split: if_splits)
  define k where "k = (of_char c :: int)"
  from r have "48 \<le> k" "k \<le> 57" by (simp_all add: k_def)
  then have "k = 48 \<or> k = 49 \<or> k = 50 \<or> k = 51 \<or> k = 52 \<or> k = 53 \<or> k = 54 \<or> k = 55
      \<or> k = 56 \<or> k = 57"
    by arith
  then have "k \<in> set [48, 49, 50, 51, 52, 53, 54, 55, 56, 57]" by simp
  then have "char_of k \<in> set (map char_of [48 :: int, 49, 50, 51, 52, 53, 54, 55, 56, 57])"
    unfolding set_map by (rule imageI)
  moreover have "char_of k = c" by (simp add: k_def)
  ultimately have "c \<in> set ''0123456789''" unfolding digit_chars by simp
  with nd show False by (simp add: isDigit_def)
qed

lemma parseDigits_None: "\<not> list_all isDigit body \<Longrightarrow> parseDigits acc body = None"
  by (induction body arbitrary: acc) (auto simp: digitVal_None split: option.splits)

lemma Atoi_not_decimal: "\<not> decimalLiteral s \<Longrightarrow> Atoi s = Inl (NumError s)"
  unfolding decimalLiteral_def Atoi_def Let_def
  by (auto simp: parseDigits_None split: option.splits)

subsection \<open>The scan for an array predicate\<close>

lemma findMatch_none:
  assumes "list_all isMap items" and "\<not> list_ex (itemMatches key value) items"
  shows "findMatch key value items = Inr None"
  using assms
proof (induction items)
  case Nil
  then show ?case by simp
next
  case (Cons item items)
  then obtain tm where tm: "item = VMap tm" by (cases item) auto
  with Cons.prems have "tm key \<noteq> Some (VStr value)" by simp
  moreover from Cons have "findMatch key value items = Inr None" by simp
  ultimately show ?case using tm by (auto split: option.splits)
qed

subsection \<open>Index segments on a sequence\<close>

text \<open>
  Claim C1: a write that reaches a sequence through a numeric index fails with
  \<open>ErrIndexOutOfBound\<close> exactly when the index is outside \<open>[0, length)\<close>, and no
  position outside the sequence is accessed. On a sequence of length 3 the code does so
  for the index 5, and it writes the element at the index 2; at the index 3, the length
  itself, the guard \<^verbatim>\<open>len(m) < index\<close> lets the write through and the indexing
  \<^verbatim>\<open>m[index]\<close> panics.
\<close>

theorem C1_index_equal_to_length_panics:
  "updateSliceField rx n [a, b, c] [''3''] r = Some (Panics IndexOutOfRange)
   \<and> updateSliceField rx n [a, b, c] [''3'', ''x''] r = Some (Panics IndexOutOfRange)
   \<and> updateSliceField rx n [a, b, c] [''5''] r
       = Some (Returns [a, b, c] (Some (ErrIndexOutOfBound 5 3)))
   \<and> updateSliceField rx n [a, b, c] [''2''] r = Some (Returns [a, b, r] None)"
  by (simp add: segment_3 segment_5 segment_2 Atoi_3 Atoi_5 Atoi_2 sliceSet_def sliceGet_def)

subsection \<open>A final plain key on a map\<close>

text \<open>
  Claim C3, as stated: a final plain key without substring pattern overwrites the entry
  and returns no error whatever the entry's current value is. It fails on an entry that
  holds \<^verbatim>\<open>nil\<close>: the check \<^verbatim>\<open>v == nil\<close> comes before the test for the final
  segment.
\<close>

theorem C3_nil_entry_counterexample:
  "updateMapField noRegexp 0 (Map.empty(''a'' \<mapsto> VNil)) [''a''] (VStr ''x'')
     = Some (Returns (Map.empty(''a'' \<mapsto> VNil)) (Some (ErrTypeMismatch VNil)))"
  by (simp add: segment_a suffix_a)

text \<open>
  Claim C3, amended: for a final plain key without substring pattern on a map, the write
  overwrites the entry with the replacement and returns no error when the entry is absent
  or holds a value other than \<^verbatim>\<open>nil\<close>; when the entry holds \<^verbatim>\<open>nil\<close> the write
  returns \<open>ErrTypeMismatch\<close> and the map is unchanged.
\<close>

theorem C3_final_plain_key:
  assumes "getFirstPathSegment seg = (seg, '''', '''', False)"
    and "extractSubstringPattern seg = (seg, '''')"
  shows "(m seg \<noteq> Some VNil \<longrightarrow>
            updateMapField rx n m [seg] repl = Some (Returns (m(seg \<mapsto> repl)) None))
       \<and> (m seg = Some VNil \<longrightarrow>
            updateMapField rx n m [seg] repl = Some (Returns m (Some (ErrTypeMismatch VNil))))"
  using assms by (auto simp: applySubstringPattern_def split: option.splits)

theorem C3_final_plain_key_witness:
  "getFirstPathSegment ''a'' = (''a'', '''', '''', False)
   \<and> extractSubstringPattern ''a'' = (''a'', '''')
   \<and> updateMapField noRegexp 0 (Map.empty(''a'' \<mapsto> VStr ''old'')) [''a''] (VStr ''x'')
       = Some (Returns (Map.empty(''a'' \<mapsto> VStr ''x'')) None)
   \<and> updateMapField noRegexp 0 Map.empty [''a''] (VStr ''x'')
       = Some (Returns (Map.empty(''a'' \<mapsto> VStr ''x'')) None)"
  using C3_final_plain_key [OF segment_a suffix_a, of "Map.empty(''a'' \<mapsto> VStr ''old'')"
      noRegexp 0 "VStr ''x''"]
    C3_final_plain_key [OF segment_a suffix_a, of "Map.empty" noRegexp 0 "VStr ''x''"]
  by (simp add: segment_a suffix_a)

subsection \<open>An array predicate that matches no element\<close>

text \<open>
  Claim C7: when a predicate segment \<^verbatim>\<open>field[key=value]\<close> scans a sequence whose
  elements are all maps and none of them binds \<open>key\<close> to the string \<open>want\<close>, the write returns no
  error and changes nothing, whether the segment is the last one (\<open>rest = []\<close>) or
  not. The first statement is the write on the map that holds the sequence at \<open>field\<close>,
  the second the write on the sequence itself.
\<close>

theorem C7_predicate_without_match_is_noop:
  assumes seg: "getFirstPathSegment seg = (field, key, want, True)"
    and ext: "extractSubstringPattern field = (path, pat)"
    and present: "m path = Some (VSeq items)"
    and maps: "list_all isMap items"
    and nomatch: "\<not> list_ex (itemMatches key want) items"
  shows "updateMapField rx (Suc n) m (seg # rest) repl = Some (Returns m None)
       \<and> updateSliceField rx n items (seg # rest) repl = Some (Returns items None)"
proof -
  have fm: "findMatch key want items = Inr None"
    using maps nomatch by (rule findMatch_none)
  have sl: "updateSliceField rx n items (seg # r') repl = Some (Returns items None)" for r'
    using seg fm by simp
  have fld: "updateField rx (Suc n) (VSeq items) (seg # r') repl
      = Some (Returns (VSeq items) None)" for r'
    using sl by simp
  have upd: "m(path \<mapsto> VSeq items) = m"
    using present by (simp add: map_upd_triv)
  have "updateMapField rx (Suc n) m (seg # rest) repl = Some (Returns m None)"
    using seg ext present fm fld upd by (simp add: Let_def del: updateField.simps)
  with sl show ?thesis by simp
qed

lemma segment_containers_nginx:
  "getFirstPathSegment ''containers[name=nginx]'' = (''containers'', ''name'', ''nginx'', True)"
  by code_simp

lemma suffix_containers: "extractSubstringPattern ''containers'' = (''containers'', '''')"
  by code_simp

theorem C7_predicate_without_match_is_noop_witness:
  "updateMapField noRegexp (Suc 0)
      (Map.empty(''containers'' \<mapsto> VSeq [VMap (Map.empty(''name'' \<mapsto> VStr ''redis''))]))
      [''containers[name=nginx]''] (VStr ''x'')
     = Some (Returns
         (Map.empty(''containers'' \<mapsto> VSeq [VMap (Map.empty(''name'' \<mapsto> VStr ''redis''))]))
         None)
   \<and> updateMapField noRegexp (Suc 0)
      (Map.empty(''containers'' \<mapsto> VSeq [VMap (Map.empty(''name'' \<mapsto> VStr ''redis''))]))
      [''containers[name=nginx]'', ''image''] (VStr ''x'')
     = Some (Returns
         (Map.empty(''containers'' \<mapsto> VSeq [VMap (Map.empty(''name'' \<mapsto> VStr ''redis''))]))
         None)"
proof -
  let ?items = "[VMap (Map.empty(''name'' \<mapsto> VStr ''redis''))]"
  let ?m = "Map.empty(''containers'' \<mapsto> VSeq ?items)"
  have present: "?m ''containers'' = Some (VSeq ?items)" by simp
  have maps: "list_all isMap ?items" by simp
  have nomatch: "\<not> list_ex (itemMatches ''name'' ''nginx'') ?items" by simp
  note inst = C7_predicate_without_match_is_noop
    [where seg = "''containers[name=nginx]''" and field = "''containers''" and key = "''name''"
       and want = "''nginx''" and path = "''containers''" and pat = "''''" and m = ?m
       and items = ?items and rx = noRegexp and n = 0 and repl = "VStr ''x''",
     OF segment_containers_nginx suffix_containers present maps nomatch]
  show ?thesis
    using inst [of "[]"] inst [of "[''image'']"]
    by (simp del: updateMapField.simps updateSliceField.simps)
qed

subsection \<open>Auto-vivification of a missing intermediate key\<close>

text \<open>
  Claim C8: writing through a missing intermediate plain key of a map creates an empty
  map at that key and the traversal continues through it (first statement: the write
  is the write of the remaining segments on an empty map, stored at the key). So the
  write of \<open>v\<close> to \<^verbatim>\<open>metadata.labels.owner\<close> on a document whose \<^verbatim>\<open>metadata\<close> has no
  \<^verbatim>\<open>labels\<close> leaves \<^verbatim>\<open>metadata.labels\<close> equal to the one-entry map \<^verbatim>\<open>{owner: v}\<close>
  (second statement, on the path as \<^verbatim>\<open>substitute\<close> parses it).
\<close>

theorem C8_missing_intermediate_key_is_created:
  assumes "getFirstPathSegment seg = (field, key, want, False)"
    and "extractSubstringPattern field = (path, pat)"
    and "m path = None" and "rest \<noteq> []"
    and "d ''metadata'' = Some (VMap md)" and "md ''labels'' = None"
  shows "updateMapField rx n m (seg # rest) repl =
           (case updateField rx n (VMap Map.empty) rest repl of
              None \<Rightarrow> None
            | Some (Panics p) \<Rightarrow> Some (Panics p)
            | Some (Returns v' err) \<Rightarrow> Some (Returns (m(path \<mapsto> v')) err))
       \<and> updateField rx (Suc (Suc (Suc n))) (VMap d) (pathSliceOf ''metadata.labels.owner'') v
           = Some (Returns
               (VMap (d(''metadata'' \<mapsto>
                  VMap (md(''labels'' \<mapsto> VMap (Map.empty(''owner'' \<mapsto> v)))))))
               None)"
proof -
  have general: "updateMapField rx n m (seg # rest) repl =
           (case updateField rx n (VMap Map.empty) rest repl of
              None \<Rightarrow> None
            | Some (Panics p) \<Rightarrow> Some (Panics p)
            | Some (Returns v' err) \<Rightarrow> Some (Returns (m(path \<mapsto> v')) err))"
    using assms(1-4)
    by (simp add: Let_def del: updateField.simps split: option.splits outcome.splits)
  have own: "updateField rx (Suc n) (VMap Map.empty) [''owner''] v
      = Some (Returns (VMap (Map.empty(''owner'' \<mapsto> v))) None)"
    by (simp add: segment_owner suffix_owner applySubstringPattern_def)
  have "updateMapField rx (Suc n) md [''labels'', ''owner''] v
      = Some (Returns (md(''labels'' \<mapsto> VMap (Map.empty(''owner'' \<mapsto> v)))) None)"
    using assms(6) own by (simp add: segment_labels suffix_labels Let_def del: updateField.simps)
  then have lab: "updateField rx (Suc (Suc n)) (VMap md) [''labels'', ''owner''] v
      = Some (Returns (VMap (md(''labels'' \<mapsto> VMap (Map.empty(''owner'' \<mapsto> v))))) None)"
    by simp
  have "updateMapField rx (Suc (Suc n)) d [''metadata'', ''labels'', ''owner''] v
      = Some (Returns
          (d(''metadata'' \<mapsto> VMap (md(''labels'' \<mapsto> VMap (Map.empty(''owner'' \<mapsto> v))))))
          None)"
    using assms(5) lab
    by (simp add: segment_metadata suffix_metadata Let_def del: updateField.simps)
  then have scenario:
    "updateField rx (Suc (Suc (Suc n))) (VMap d) (pathSliceOf ''metadata.labels.owner'') v
       = Some (Returns
           (VMap (d(''metadata'' \<mapsto>
              VMap (md(''labels'' \<mapsto> VMap (Map.empty(''owner'' \<mapsto> v)))))))
           None)"
    unfolding path_metadata_labels_owner by simp
  from general scenario show ?thesis by (rule conjI)
qed

theorem C8_missing_intermediate_key_is_created_witness:
  "updateMapField noRegexp (Suc 0) (Map.empty(''name'' \<mapsto> VStr ''n'')) [''labels'', ''owner'']
      (VStr ''abc'')
     = Some (Returns
         (Map.empty(''name'' \<mapsto> VStr ''n'',
                    ''labels'' \<mapsto> VMap (Map.empty(''owner'' \<mapsto> VStr ''abc''))))
         None)
   \<and> updateField noRegexp (Suc (Suc (Suc (Suc 0))))
      (VMap (Map.empty(''metadata'' \<mapsto> VMap (Map.empty(''name'' \<mapsto> VStr ''n'')))))
      (pathSliceOf ''metadata.labels.owner'') (VStr ''abc'')
     = Some (Returns
         (VMap (Map.empty(''metadata'' \<mapsto>
            VMap (Map.empty(''name'' \<mapsto> VStr ''n'',
                            ''labels'' \<mapsto> VMap (Map.empty(''owner'' \<mapsto> VStr ''abc'')))))))
         None)"
proof -
  let ?md = "Map.empty(''name'' \<mapsto> VStr ''n'')"
  let ?d = "Map.empty(''metadata'' \<mapsto> VMap ?md)"
  have absent: "?md ''labels'' = None" by simp
  have rest: "[''owner''] \<noteq> []" by simp
  have present: "?d ''metadata'' = Some (VMap ?md)" by simp
  have own: "updateField noRegexp (Suc 0) (VMap Map.empty) [''owner''] (VStr ''abc'')
      = Some (Returns (VMap (Map.empty(''owner'' \<mapsto> VStr ''abc''))) None)"
    by (simp add: segment_owner suffix_owner applySubstringPattern_def)
  show ?thesis
    using C8_missing_intermediate_key_is_created
        [where seg = "''labels''" and field = "''labels''" and key = "''''" and want = "''''"
           and path = "''labels''" and pat = "''''" and m = ?md and rest = "[''owner'']"
           and d = ?d and md = ?md and rx = noRegexp and n = "Suc 0"
           and repl = "VStr ''abc''" and v = "VStr ''abc''",
         OF segment_labels suffix_labels absent rest present absent]
    unfolding own
    by (simp del: updateMapField.simps updateField.simps)
qed

subsection \<open>Dots inside an array predicate\<close>

text \<open>
  Claim C9: the path \<^verbatim>\<open>spec.ip[tag=10.0.0.1].value\<close> is parsed into exactly three
  segments, the key \<^verbatim>\<open>spec\<close>, the predicate with container field \<^verbatim>\<open>ip\<close>, match key
  \<^verbatim>\<open>tag\<close> and match value \<^verbatim>\<open>10.0.0.1\<close>, and the key \<^verbatim>\<open>value\<close>: the dots inside the
  brackets do not separate segments.
\<close>

theorem C9_dots_inside_predicate_are_protected:
  "pathSliceOf ''spec.ip[tag=10.0.0.1].value'' = [''spec'', ''ip[tag=10.0.0.1]'', ''value'']
   \<and> map getFirstPathSegment (pathSliceOf ''spec.ip[tag=10.0.0.1].value'')
       = [(''spec'', '''', '''', False), (''ip'', ''tag'', ''10.0.0.1'', True),
          (''value'', '''', '''', False)]"
  by code_simp

subsection \<open>A segment on a sequence that is neither predicate nor integer\<close>

text \<open>
  Claim C10: when the traversal reaches a sequence with a segment that is neither an
  array predicate nor a decimal integer literal, the write returns the error of
  \<^verbatim>\<open>strconv.Atoi\<close> and the sequence is not changed; it is never a silent no-op.
\<close>

theorem C10_non_numeric_segment_on_sequence_fails:
  assumes "\<not> isArray seg" and "\<not> decimalLiteral seg"
  shows "updateSliceField rx n m (seg # rest) repl = Some (Returns m (Some (NumError seg)))
       \<and> updateField rx (Suc n) (VSeq m) (seg # rest) repl
           = Some (Returns (VSeq m) (Some (NumError seg)))"
proof -
  from assms(2) have e: "Atoi seg = Inl (NumError seg)" by (rule Atoi_not_decimal)
  obtain f k v where g: "getFirstPathSegment seg = (f, k, v, False)"
    using assms(1) unfolding isArray_def by (cases "getFirstPathSegment seg") auto
  have s: "updateSliceField rx n m (seg # rest) repl = Some (Returns m (Some (NumError seg)))"
    using e g by simp
  then show ?thesis by simp
qed

theorem C10_non_numeric_segment_on_sequence_fails_witness:
  "\<not> isArray ''name'' \<and> \<not> decimalLiteral ''name''
   \<and> updateSliceField noRegexp 0 [VStr ''a''] [''name''] (VStr ''x'')
       = Some (Returns [VStr ''a''] (Some (NumError ''name'')))
   \<and> updateField noRegexp (Suc 0) (VSeq [VStr ''a'']) [''name''] (VStr ''x'')
       = Some (Returns (VSeq [VStr ''a'']) (Some (NumError ''name'')))"
proof -
  have h1: "\<not> isArray ''name''" by code_simp
  have h2: "\<not> decimalLiteral ''name''" by code_simp
  show ?thesis
    using h1 h2
      C10_non_numeric_segment_on_sequence_fails [OF h1 h2, of noRegexp 0 "[VStr ''a'']" "[]"
        "VStr ''x''"]
    by (simp del: updateSliceField.simps updateField.simps)
qed

subsection \<open>The checks of \<^verbatim>\<open>New\<close>\<close>

lemma checkReplacements_iff: "(checkReplacements rs \<noteq> None) = list_ex badRule rs"
  by (induction rs) (auto simp: badRule_def split: option.splits)

lemma checkReplacements_kind:
  "checkReplacements rs = Some e \<Longrightarrow> \<exists>msg. e = ErrBadConfiguration msg"
  by (induction rs) (auto split: option.splits if_splits)

text \<open>
  Claim C5, as stated: \<^verbatim>\<open>New\<close> returns \<open>ErrBadConfiguration\<close> for a rule whose source
  sets neither a field reference nor a literal value. It does not: \<^verbatim>\<open>New\<close> has no
  check for that, and returns the plugin.
\<close>

theorem C5_empty_source_counterexample:
  "New (Inr \<lparr>Replacements = [emptySourceRule]\<rparr>) = Inr \<lparr>Replacements = [emptySourceRule]\<rparr>"
  by (simp add: New_def emptySourceRule_def)

text \<open>
  Claim C5, amended: on a decoded configuration, \<^verbatim>\<open>New\<close> returns
  \<open>ErrBadConfiguration\<close> if and only if some rule omits its source, omits its target, or
  sets both a field reference and a literal value on its source; for every other list of
  rules (a rule that sets neither included) it returns the plugin without error.
\<close>

theorem C5_New_rejects_exactly_bad_rules:
  "((\<exists>msg. New (Inr p) = Inl (ErrBadConfiguration msg)) \<longleftrightarrow> list_ex badRule (Replacements p))
   \<and> (\<not> list_ex badRule (Replacements p) \<longrightarrow> New (Inr p) = Inr p)"
proof -
  have "checkReplacements (Replacements p) = None
      \<or> (\<exists>msg. checkReplacements (Replacements p) = Some (ErrBadConfiguration msg))"
    using checkReplacements_kind by (cases "checkReplacements (Replacements p)") auto
  then show ?thesis
    using checkReplacements_iff [of "Replacements p"] by (auto simp: New_def)
qed

theorem C5_New_rejects_exactly_bad_rules_witness:
  "list_ex badRule [literalRule, bothSourcesRule]
   \<and> (\<exists>msg. New (Inr \<lparr>Replacements = [literalRule, bothSourcesRule]\<rparr>)
         = Inl (ErrBadConfiguration msg))
   \<and> \<not> list_ex badRule [literalRule, emptySourceRule]
   \<and> New (Inr \<lparr>Replacements = [literalRule, emptySourceRule]\<rparr>)
       = Inr \<lparr>Replacements = [literalRule, emptySourceRule]\<rparr>"
proof -
  have bad: "list_ex badRule [literalRule, bothSourcesRule]"
    by (simp add: badRule_def literalRule_def bothSourcesRule_def)
  have good: "\<not> list_ex badRule [literalRule, emptySourceRule]"
    by (simp add: badRule_def literalRule_def emptySourceRule_def)
  show ?thesis
    using bad good
      C5_New_rejects_exactly_bad_rules [of "\<lparr>Replacements = [literalRule, bothSourcesRule]\<rparr>"]
      C5_New_rejects_exactly_bad_rules [of "\<lparr>Replacements = [literalRule, emptySourceRule]\<rparr>"]
    by simp
qed

subsection \<open>How many resources a selector may match\<close>






subsection \<open>Substring substitution on a sequence\<close>

lemma segment_f_a: "getFirstPathSegment ''f%a%'' = (''f%a%'', '''', '''', False)"
  by code_simp

lemma suffix_f_a: "extractSubstringPattern ''f%a%'' = (''f'', ''a'')"
  by code_simp

text \<open>
  What the code does on a sequence of strings that is not empty: the result has the same
  length and order, with the replace-all applied to each element (as a \<^verbatim>\<open>[]string\<close>).
\<close>

lemma applySubstringPattern_strings:
  assumes "rx pat = Some replaceAll" and "pat \<noteq> ''''" and "strs \<noteq> []"
  shows "applySubstringPattern rx (VSeq (map VStr strs)) (VStr repl) pat
     = Returns (VStrs (map (\<lambda>s. replaceAll s repl) strs)) None"
proof -
  have s: "stringsOf (map VStr strs) = strs" by (induction strs) auto
  have p: "processArray rx strs pat repl = Inr (map (\<lambda>s. replaceAll s repl) strs)"
    using assms(1) by (induction strs) (auto simp: processString_def)
  show ?thesis using assms s p
    by (simp add: applySubstringPattern_def substituteTarget_def convertToStrings_def
        liftPanic_def)
qed

text \<open>
  Claim C2: with a substring pattern on a sequence, every element a string gives a
  sequence of the same length with the replace-all applied to each element, and any
  element that is not a string gives the pattern-target error with the target unchanged.
  The code differs on both halves. On the field \<^verbatim>\<open>f\<close> holding \<^verbatim>\<open>["ab", 1]\<close>, the
  path \<^verbatim>\<open>f%a%\<close> and the replacement \<^verbatim>\<open>"X"\<close>, \<^verbatim>\<open>convertToStrings\<close> drops the
  integer and the write succeeds with a sequence of length 1 (or panics when the pattern
  does not compile); on the empty sequence, whose elements are all strings, it returns
  the pattern-target error.
\<close>

theorem C2_non_string_elements_are_dropped:
  "updateMapField rx n (Map.empty(''f'' \<mapsto> VSeq [VStr ''ab'', VInt 1])) [''f%a%''] (VStr ''X'')
     = (case rx ''a'' of
          None \<Rightarrow> Some (Panics (RegexpMustCompile ''a''))
        | Some replaceAll \<Rightarrow>
            Some (Returns (Map.empty(''f'' \<mapsto> VStrs [replaceAll ''ab'' ''X''])) None))
   \<and> updateMapField rx n (Map.empty(''f'' \<mapsto> VSeq [])) [''f%a%''] (VStr ''X'')
     = Some (Returns (Map.empty(''f'' \<mapsto> VSeq [])) (Some (ErrPatternSubstring msgTarget)))"
  by (simp add: segment_f_a suffix_f_a applySubstringPattern_def substituteTarget_def
      convertToStrings_def liftPanic_def processString_def split: option.splits)

subsection \<open>An array predicate on a field the map does not have\<close>

lemma segment_ip: "getFirstPathSegment ''ip[tag=x]'' = (''ip'', ''tag'', ''x'', True)"
  by code_simp

lemma suffix_ip: "extractSubstringPattern ''ip'' = (''ip'', '''')"
  by code_simp

text \<open>
  With segments after the predicate, the write on a map without the field never returns:
  the field is created as an empty map, and the same path is then written on that empty
  map, which again has no such field.
\<close>

lemma predicate_on_missing_field_diverges:
  "m ''ip'' = None \<Longrightarrow> updateField rx n (VMap m) [''ip[tag=x]'', ''value''] r = None"
proof (induction n arbitrary: m)
  case 0
  then show ?case by simp
next
  case (Suc n)
  have "updateField rx n (VMap Map.empty) [''ip[tag=x]'', ''value''] r = None"
    by (rule Suc.IH) simp
  then have "updateMapField rx n m [''ip[tag=x]'', ''value''] r = None"
    using Suc.prems by (simp add: segment_ip suffix_ip Let_def del: updateField.simps)
  then show ?case by simp
qed

text \<open>
  Claim C4: a write whose segment is an array predicate on a map without that field
  fails with an error and does not create the entry. The code creates the entry before
  it looks at the kind of segment. With the predicate as final segment, on the empty map
  and the path \<^verbatim>\<open>ip[tag=x]\<close>, it returns \<open>ErrTypeMismatch\<close> and leaves \<^verbatim>\<open>ip\<close> bound to
  an empty map; with a segment after the predicate it returns for no amount of fuel.
\<close>

theorem C4_predicate_on_missing_field_creates_entry:
  "updateMapField rx n Map.empty [''ip[tag=x]''] r
     = Some (Returns (Map.empty(''ip'' \<mapsto> VMap Map.empty))
         (Some (ErrTypeMismatch (VMap Map.empty))))
   \<and> updateField rx n (VMap Map.empty) [''ip[tag=x]'', ''value''] r = None"
proof -
  have "updateMapField rx n Map.empty [''ip[tag=x]''] r
     = Some (Returns (Map.empty(''ip'' \<mapsto> VMap Map.empty))
         (Some (ErrTypeMismatch (VMap Map.empty))))"
    by (simp add: segment_ip suffix_ip Let_def del: updateField.simps)
  moreover have "updateField rx n (VMap Map.empty) [''ip[tag=x]'', ''value''] r = None"
    by (rule predicate_on_missing_field_diverges) simp
  ultimately show ?thesis by simp
qed

subsection \<open>More fuel never changes a result\<close>

text \<open>
  A call that returns within some fuel returns the same outcome with any larger fuel, so
  the outcome of a call does not depend on the fuel it is given, once that is enough.
\<close>

lemma updateMapField_fuel_step:
  assumes P: "\<And>m p r y. updateField rx n m p r = Some y \<Longrightarrow> updateField rx (Suc n) m p r = Some y"
    and ret: "updateMapField rx n m p r = Some y"
  shows "updateMapField rx (Suc n) m p r = Some y"
proof (cases p)
  case Nil
  with ret show ?thesis by simp
next
  case (Cons seg rest)
  obtain path0 key want isArr where g: "getFirstPathSegment seg = (path0, key, want, isArr)"
    by (cases "getFirstPathSegment seg") auto
  obtain path pat where e: "extractSubstringPattern path0 = (path, pat)"
    by (cases "extractSubstringPattern path0") auto
  define v where "v = (case m path of None \<Rightarrow> VMap Map.empty | Some found \<Rightarrow> found)"
  define q where "q = (if isArr then seg # rest else rest)"
  show ?thesis
  proof (cases "updateField rx n v q r")
    case None
    with ret show ?thesis
      unfolding Cons v_def q_def using g e
      by (simp add: Let_def del: updateField.simps split: if_splits val.splits sum.splits option.splits outcome.splits)
  next
    case (Some z)
    then have "updateField rx (Suc n) v q r = Some z" by (rule P)
    with Some ret show ?thesis
      unfolding Cons v_def q_def using g e
      by (simp add: Let_def del: updateField.simps split: if_splits val.splits sum.splits option.splits outcome.splits)
  qed
qed


lemma updateSliceField_fuel_step:
  assumes P: "\<And>m p r y. updateField rx n m p r = Some y \<Longrightarrow> updateField rx (Suc n) m p r = Some y"
    and ret: "updateSliceField rx n m p r = Some y"
  shows "updateSliceField rx (Suc n) m p r = Some y"
proof (cases p)
  case Nil
  with ret show ?thesis by simp
next
  case (Cons seg rest)
  obtain path0 key want isArr where g: "getFirstPathSegment seg = (path0, key, want, isArr)"
    by (cases "getFirstPathSegment seg") auto
  have step: "updateField rx (Suc n) x rest r = Some z" if "updateField rx n x rest r = Some z" for x z
    using that by (rule P)
  show ?thesis
    using ret step unfolding Cons using g
    by (auto simp add: Let_def simp del: updateField.simps split: if_splits sum.splits option.splits outcome.splits)
qed

lemma updateField_fuel_step:
  "updateField rx n m p r = Some y \<Longrightarrow> updateField rx (Suc n) m p r = Some y"
proof (induction n arbitrary: m p r y)
  case 0
  then show ?case by simp
next
  case (Suc n)
  have mp: "updateMapField rx (Suc n) tm p r = Some z" if "updateMapField rx n tm p r = Some z" for tm z
    using Suc.IH that by (rule updateMapField_fuel_step)
  have sl: "updateSliceField rx (Suc n) ts p r = Some z" if "updateSliceField rx n ts p r = Some z" for ts z
    using Suc.IH that by (rule updateSliceField_fuel_step)
  from Suc.prems show ?case
    using mp sl by (subst updateField.simps, subst (asm) updateField.simps) (auto split: if_splits val.splits)
qed

lemma updateField_fuel_mono: "updateField rx n m p r = Some y \<Longrightarrow> updateField rx (n + k) m p r = Some y"
  by (induction k) (auto dest: updateField_fuel_step)

subsection \<open>The three ranges of an index\<close>

text \<open>
  For a segment that \<^verbatim>\<open>strconv.Atoi\<close> reads as \<open>i\<close>, on a sequence \<open>m\<close>: below 0 and
  above the length the write returns \<open>ErrIndexOutOfBound\<close>, from 0 up to the length
  (excluded) a final segment overwrites the element, and at the length the indexing panics.
\<close>

lemma updateSliceField_index_ranges:
  assumes "\<not> isArray seg" and "Atoi seg = Inr i"
  shows "(i < 0 \<or> int (length m) < i \<longrightarrow>
            updateSliceField rx n m (seg # rest) r
              = Some (Returns m (Some (ErrIndexOutOfBound i (length m)))))
       \<and> (0 \<le> i \<and> i < int (length m) \<longrightarrow>
            updateSliceField rx n m [seg] r = Some (Returns (m[nat i := r]) None))
       \<and> (i = int (length m) \<longrightarrow>
            updateSliceField rx n m (seg # rest) r = Some (Panics IndexOutOfRange))"
proof -
  obtain f k v where g: "getFirstPathSegment seg = (f, k, v, False)"
    using assms(1) unfolding isArray_def by (cases "getFirstPathSegment seg") auto
  show ?thesis
    using g assms(2) by (auto simp: sliceSet_def sliceGet_def simp del: updateField.simps)
qed

end
